theory Spec2Isabelle
  imports Complex_Main "HOL-Library.Word"
begin

section \<open>Session management plane of eRPC: a shallow embedding\<close>

text \<open>
  The theory embeds the session-management code of \<^verbatim>\<open>src/session.h\<close> and
  \<^verbatim>\<open>src/rpc_impl/rpc_sm_retry.cc\<close>. C++ objects become records, enums become
  datatypes, \<^verbatim>\<open>Session *\<close> becomes an address into an explicit store, and every
  \<^verbatim>\<open>assert\<close> of the source is a branch that returns an error (the build with
  assertions enabled; where every assertion passes, the build without them computes
  the same state).
\<close>

subsection \<open>Enumerations\<close>

text \<open>\<^verbatim>\<open>enum class SessionState\<close>, session.h.\<close>

datatype SessionState =
    kConnectInProgress
  | kConnected
  | kDisconnectInProgress
  | kDisconnected
  | kError

text \<open>
  \<^verbatim>\<open>enum class SessionMgmtEventType\<close>, session.h. Two enumerators share their names
  with \<^verbatim>\<open>SessionState\<close>; they carry the suffix \<open>Ev\<close> here.
\<close>

datatype SessionMgmtEventType =
    kConnectedEv
  | kConnectFailed
  | kDisconnectedEv
  | kDisconnectFailed

text \<open>
  The error kinds, as listed by \<^verbatim>\<open>sm_err_type_str\<close> (the declaration of the enum,
  session\_mgmt\_types.h, is not among the sources).
\<close>

datatype SessionMgmtErrType =
    kNoError
  | kSrvDisconnected
  | kRingExhausted
  | kOutOfMemory
  | kRoutingResolutionFailure
  | kInvalidRemoteRpcId
  | kInvalidTransport

text \<open>
  Modelled from the spec: \<^verbatim>\<open>SessionMgmtPktType\<close> is declared in session\_mgmt\_types.h,
  which is not among the sources. The wire protocol has four packet types, Connect
  Req = 1, Connect Resp = 2, Disconnect Req = 3, Disconnect Resp = 4; the retry code
  names \<^verbatim>\<open>kConnectReq\<close> and \<^verbatim>\<open>kDisconnectReq\<close>.
\<close>

datatype SessionMgmtPktType =
    kConnectReq
  | kConnectResp
  | kDisconnectReq
  | kDisconnectResp

text \<open>
  Modelled from the spec: \<^verbatim>\<open>session_mgmt_is_pkt_type_req\<close> (session\_mgmt\_types.h, not
  among the sources) tells whether a packet type is one of the two request types.
\<close>

fun session_mgmt_is_pkt_type_req :: "SessionMgmtPktType \<Rightarrow> bool" where
  "session_mgmt_is_pkt_type_req kConnectReq = True"
| "session_mgmt_is_pkt_type_req kDisconnectReq = True"
| "session_mgmt_is_pkt_type_req kConnectResp = False"
| "session_mgmt_is_pkt_type_req kDisconnectResp = False"

text \<open>
  Modelled from the spec: \<^verbatim>\<open>session_mgmt_pkt_type_req_to_resp\<close> (session\_mgmt\_types.h,
  not among the sources) flips a request type to the corresponding response type. The
  spec gives it no value on a response type: \<open>None\<close> there.
\<close>

fun session_mgmt_pkt_type_req_to_resp :: "SessionMgmtPktType \<Rightarrow> SessionMgmtPktType option" where
  "session_mgmt_pkt_type_req_to_resp kConnectReq = Some kConnectResp"
| "session_mgmt_pkt_type_req_to_resp kDisconnectReq = Some kDisconnectResp"
| "session_mgmt_pkt_type_req_to_resp kConnectResp = None"
| "session_mgmt_pkt_type_req_to_resp kDisconnectResp = None"

text \<open>
  \<^verbatim>\<open>TransportType\<close> is declared in transport\_types.h, which is not among the sources;
  these are the two enumerators the sources name.
\<close>

datatype TransportType = kInfiniBand | kInvalidTransportType

text \<open>\<^verbatim>\<open>Session::Role\<close>, session.h.\<close>

datatype Role = kServer | kClient

text \<open>What stops a run: a failed \<^verbatim>\<open>assert\<close>, the \<^verbatim>\<open>exit(-1)\<close> of an unreachable
  \<^verbatim>\<open>default\<close> branch, a read through a pointer that holds no object, a call the spec rules out as
  a programmer error.\<close>

datatype error = AssertFailed | UnreachableDefault | InvalidPointer | ProgrammerError

subsection \<open>SessionMetadata\<close>

text \<open>
  \<^verbatim>\<open>hostname\<close> is the \<^verbatim>\<open>char\<close> buffer as it lies in memory, terminator and padding
  included; \<^verbatim>\<open>routing_info\<close> is an opaque byte array.
\<close>

record SessionMetadata =
  transport_type :: TransportType
  hostname :: string
  app_tid :: "8 word"
  phy_port :: "8 word"
  session_num :: "32 word"
  start_seq :: "64 word"
  routing_info :: "8 word list"

definition NUL :: char where
  "NUL = CHR 0x00"

text \<open>
  \<^verbatim>\<open>strcmp\<close> of the C library on two buffers: bytes are compared as unsigned values up
  to the first difference or the first terminator. \<open>None\<close> is a read past the end of
  a buffer that holds no terminator (undefined behaviour in C).
\<close>

fun strcmp :: "string \<Rightarrow> string \<Rightarrow> int option" where
  "strcmp (a # s) (b # t) =
     (if a \<noteq> b then Some (int (of_char a) - int (of_char b))
      else if a = NUL then Some 0
      else strcmp s t)"
| "strcmp _ _ = None"

text \<open>\<^verbatim>\<open>SessionMetadata::operator==\<close>, session.h lines 127--130.\<close>

definition SessionMetadata_eq :: "SessionMetadata \<Rightarrow> SessionMetadata \<Rightarrow> bool option" where
  "SessionMetadata_eq a other =
     (case strcmp (hostname a) (hostname other) of
        None \<Rightarrow> None
      | Some r \<Rightarrow> Some (r = 0 \<and> app_tid a = app_tid other \<and> session_num a = session_num other))"

text \<open>
  The zero-terminated string a buffer holds, in the words of the claim about equality:
  the bytes before the first terminator.
\<close>

definition c_str :: "string \<Rightarrow> string" where
  "c_str buf = takeWhile (\<lambda>c. c \<noteq> NUL) buf"

subsection \<open>SessionMgmtPkt\<close>

text \<open>
  \<^verbatim>\<open>err_type\<close> is \<open>None\<close> while nothing has been written to it: the one-argument
  constructor initialises \<^verbatim>\<open>pkt_type\<close> only.
\<close>

record SessionMgmtPkt =
  pkt_type :: SessionMgmtPktType
  err_type :: "SessionMgmtErrType option"
  client :: SessionMetadata
  server :: SessionMetadata

text \<open>\<^verbatim>\<open>udp_config_t\<close> (util/udp\_client.h, not among the sources): the two fields
  \<^verbatim>\<open>send_to\<close> reads.\<close>

record udp_config_t =
  mgmt_udp_port :: nat
  drop_prob :: real

text \<open>One call of \<^verbatim>\<open>UDPClient::send\<close>: where to, and the packet sent by value.\<close>

record datagram =
  dst_hostname :: string
  dst_port :: nat
  dst_drop_prob :: real
  payload :: SessionMgmtPkt

text \<open>
  \<^verbatim>\<open>SessionMgmtPkt::send_to\<close>, session.h lines 150--159. The destination is the address
  of a \<^verbatim>\<open>char\<close> array member and is never \<^verbatim>\<open>NULL\<close>, so the first assertion has no
  failing branch.

  Modelled from the spec: \<^verbatim>\<open>UDPClient::send\<close> (util/udp\_client.h, not among the
  sources) is fire-and-forget: it takes the whole packet and returns its size, so the
  assertion on \<^verbatim>\<open>ret\<close> passes; whether the datagram is then dropped
  (\<^verbatim>\<open>drop_prob\<close>) is outside the sender. The model appends the call to the list of
  datagrams handed to the socket.
\<close>

definition send_to :: "string \<Rightarrow> udp_config_t \<Rightarrow> SessionMgmtPkt \<Rightarrow> datagram list \<Rightarrow> datagram list" where
  "send_to dst cfg pkt out =
     out @ [\<lparr> dst_hostname = dst, dst_port = mgmt_udp_port cfg,
               dst_drop_prob = drop_prob cfg, payload = pkt \<rparr>]"

text \<open>
  \<^verbatim>\<open>SessionMgmtPkt::send_resp_mut\<close>, session.h lines 166--173. The packet is mutated
  in place: the result is the packet after the call and the datagrams sent.
\<close>

definition send_resp_mut ::
  "SessionMgmtErrType \<Rightarrow> udp_config_t \<Rightarrow> SessionMgmtPkt \<Rightarrow> datagram list
     \<Rightarrow> error + (SessionMgmtPkt \<times> datagram list)" where
  "send_resp_mut e cfg pkt out =
     (if \<not> session_mgmt_is_pkt_type_req (pkt_type pkt) then Inl AssertFailed
      else case session_mgmt_pkt_type_req_to_resp (pkt_type pkt) of
        None \<Rightarrow> Inl UnreachableDefault
      | Some resp \<Rightarrow>
          (let pkt1 = pkt\<lparr>pkt_type := resp\<rparr>;
               pkt2 = pkt1\<lparr>err_type := Some e\<rparr>
           in Inr (pkt2, send_to (hostname (client pkt2)) cfg pkt2 out)))"

subsection \<open>Session and the per-thread Rpc object\<close>

text \<open>
  \<^verbatim>\<open>class Session\<close>, session.h. Its two metadata members are called \<^verbatim>\<open>client\<close> and
  \<^verbatim>\<open>server\<close> in the source, as the packet's are; here they carry the suffix \<open>md\<close>.
\<close>

record Session =
  role :: Role
  state :: SessionState
  client_md :: SessionMetadata
  server_md :: SessionMetadata
  mgmt_req_tsc :: "64 word"
  is_cc :: bool

text \<open>A \<^verbatim>\<open>Session *\<close> is an address; address 0 is \<^verbatim>\<open>nullptr\<close>.\<close>

type_synonym session_ptr = nat

definition nullptr :: session_ptr where
  "nullptr = 0"

text \<open>The two fields of the Nexus that the retry code reads.\<close>

record Nexus =
  freq_ghz :: real
  udp_config :: udp_config_t

text \<open>
  The Rpc object with what its methods reach: \<open>heap\<close> holds the \<^verbatim>\<open>Session\<close> objects
  by address, \<open>tsc\<close> is the sequence of values the cycle counter returns and
  \<open>tsc_reads\<close> the number of reads so far, \<open>udp_out\<close> lists the datagrams handed to
  the UDP client, \<open>sm_events\<close> lists the invocations of \<^verbatim>\<open>session_mgmt_handler\<close>.
\<close>

record Rpc =
  nexus :: Nexus
  session_vec :: "session_ptr list"
  mgmt_retry_queue :: "session_ptr list"
  heap :: "session_ptr \<rightharpoonup> Session"
  tsc :: "nat \<Rightarrow> 64 word"
  tsc_reads :: nat
  udp_out :: "datagram list"
  sm_events :: "(session_ptr \<times> SessionMgmtEventType \<times> SessionMgmtErrType) list"

text \<open>rpc.h lines 15--16.\<close>

definition kSessionMgmtRetransMs :: nat where
  "kSessionMgmtRetransMs = 5"

definition kSessionMgmtTimeoutMs :: nat where
  "kSessionMgmtTimeoutMs = 50"

text \<open>\<^verbatim>\<open>rdtsc\<close>, util/timer.cc: one read of the cycle counter.\<close>

definition rdtsc :: "Rpc \<Rightarrow> 64 word \<times> Rpc" where
  "rdtsc st = (tsc st (tsc_reads st), st\<lparr>tsc_reads := tsc_reads st + 1\<rparr>)"

text \<open>
  Modelled from the spec: \<^verbatim>\<open>to_sec\<close> (util/timer.h, not among the sources) converts a
  cycle count to seconds with the calibrated frequency, as its sibling \<^verbatim>\<open>to_usec\<close> of
  util/timer.cc does to microseconds (\<^verbatim>\<open>cycles / (freq_ghz * 1000)\<close>). The \<^verbatim>\<open>double\<close>
  is read as the real number it stands for (the rounding of the floating-point
  operations is not modelled), and the frequency is taken positive where a claim
  depends on the comparison (a division by zero is infinite in C and 0 in HOL).
\<close>

definition to_sec :: "64 word \<Rightarrow> real \<Rightarrow> real" where
  "to_sec cycles f = real (unat cycles) / (f * 1000000000)"

text \<open>\<^verbatim>\<open>to_sec(elapsed_cycles, nexus->freq_ghz) * 1000\<close>, rpc\_sm\_retry.cc lines 81 and 84.\<close>

definition elapsed_ms :: "Rpc \<Rightarrow> 64 word \<Rightarrow> Session \<Rightarrow> real" where
  "elapsed_ms st cur_tsc s =
     to_sec (cur_tsc - mgmt_req_tsc s) (freq_ghz (nexus st)) * 1000"

subsection \<open>Sending and queueing session management requests\<close>

text \<open>
  \<^verbatim>\<open>send_connect_req_one\<close>, rpc\_sm\_retry.cc lines 13--22. The packet's two metadata
  members are default-constructed and then assigned; the model writes the assigned
  values at once.
\<close>

definition send_connect_req_one :: "session_ptr \<Rightarrow> Rpc \<Rightarrow> error + Rpc" where
  "send_connect_req_one session st =
     (if session = nullptr then Inl AssertFailed
      else case heap st session of
        None \<Rightarrow> Inl InvalidPointer
      | Some s \<Rightarrow>
          if role s \<noteq> kClient then Inl AssertFailed
          else if state s \<noteq> kConnectInProgress then Inl AssertFailed
          else
            (let connect_req = \<lparr> pkt_type = kConnectReq, err_type = None,
                                 client = client_md s, server = server_md s \<rparr>
             in Inr (st\<lparr>udp_out := send_to (hostname (server_md s)) (udp_config (nexus st))
                                      connect_req (udp_out st)\<rparr>)))"

text \<open>\<^verbatim>\<open>send_disconnect_req_one\<close>, rpc\_sm\_retry.cc lines 24--33.\<close>

definition send_disconnect_req_one :: "session_ptr \<Rightarrow> Rpc \<Rightarrow> error + Rpc" where
  "send_disconnect_req_one session st =
     (if session = nullptr then Inl AssertFailed
      else case heap st session of
        None \<Rightarrow> Inl InvalidPointer
      | Some s \<Rightarrow>
          if role s \<noteq> kClient then Inl AssertFailed
          else if state s \<noteq> kDisconnectInProgress then Inl AssertFailed
          else
            (let connect_req = \<lparr> pkt_type = kDisconnectReq, err_type = None,
                                 client = client_md s, server = server_md s \<rparr>
             in Inr (st\<lparr>udp_out := send_to (hostname (server_md s)) (udp_config (nexus st))
                                      connect_req (udp_out st)\<rparr>)))"

text \<open>\<^verbatim>\<open>mgmt_retry_queue_contains\<close>, rpc\_sm\_retry.cc lines 35--39.\<close>

definition mgmt_retry_queue_contains :: "session_ptr \<Rightarrow> Rpc \<Rightarrow> bool" where
  "mgmt_retry_queue_contains session st = (session \<in> set (mgmt_retry_queue st))"

text \<open>\<^verbatim>\<open>mgmt_retry_queue_add\<close>, rpc\_sm\_retry.cc lines 41--53.\<close>

definition mgmt_retry_queue_add :: "session_ptr \<Rightarrow> Rpc \<Rightarrow> error + Rpc" where
  "mgmt_retry_queue_add session st =
     (if session = nullptr then Inl AssertFailed
      else case heap st session of
        None \<Rightarrow> Inl InvalidPointer
      | Some s \<Rightarrow>
          if role s \<noteq> kClient then Inl AssertFailed
          else if mgmt_retry_queue_contains session st then Inl AssertFailed
          else
            (let (t, st1) = rdtsc st
             in Inr (st1\<lparr>heap := (heap st1)(session \<mapsto> s\<lparr>mgmt_req_tsc := t\<rparr>),
                         mgmt_retry_queue := mgmt_retry_queue st1 @ [session]\<rparr>)))"

text \<open>
  \<^verbatim>\<open>mgmt_retry_queue_remove\<close>, rpc\_sm\_retry.cc lines 55--68. \<^verbatim>\<open>std::remove\<close> with
  \<^verbatim>\<open>erase\<close> deletes every occurrence; the last assertion compares the sizes (the
  queue holds the session there, so \<^verbatim>\<open>initial_size - 1\<close> does not wrap).
\<close>

definition mgmt_retry_queue_remove :: "session_ptr \<Rightarrow> Rpc \<Rightarrow> error + Rpc" where
  "mgmt_retry_queue_remove session st =
     (if session = nullptr then Inl AssertFailed
      else case heap st session of
        None \<Rightarrow> Inl InvalidPointer
      | Some s \<Rightarrow>
          if role s \<noteq> kClient then Inl AssertFailed
          else if \<not> mgmt_retry_queue_contains session st then Inl AssertFailed
          else
            (let initial_size = length (mgmt_retry_queue st);
                 st1 = st\<lparr>mgmt_retry_queue := removeAll session (mgmt_retry_queue st)\<rparr>
             in if length (mgmt_retry_queue st1) \<noteq> initial_size - 1 then Inl AssertFailed
                else Inr st1))"

subsection \<open>The retry scan\<close>

text \<open>
  The body of the loop of \<^verbatim>\<open>mgmt_retry\<close>, rpc\_sm\_retry.cc lines 76--108, for one
  queue entry. The only test on the elapsed time is the one against
  \<^verbatim>\<open>kSessionMgmtRetransMs\<close>. The \<^verbatim>\<open>default\<close> branch of the switch
  (\<^verbatim>\<open>assert(false); exit(-1);\<close>) is the error \<open>UnreachableDefault\<close>. The timestamp
  written at line 107 is a fresh read of the cycle counter.
\<close>

definition mgmt_retry_body :: "64 word \<Rightarrow> session_ptr \<Rightarrow> Rpc \<Rightarrow> error + Rpc" where
  "mgmt_retry_body cur_tsc session st =
     (if session = nullptr then Inl AssertFailed
      else case heap st session of
        None \<Rightarrow> Inl InvalidPointer
      | Some s \<Rightarrow>
          if \<not> (state s = kConnectInProgress \<or> state s = kDisconnectInProgress)
          then Inl AssertFailed
          else if \<not> (cur_tsc - mgmt_req_tsc s > 0) then Inl AssertFailed
          else if elapsed_ms st cur_tsc s > real kSessionMgmtRetransMs then
            (case (case state s of
                     kConnectInProgress \<Rightarrow> send_connect_req_one session st
                   | kDisconnectInProgress \<Rightarrow> send_disconnect_req_one session st
                   | _ \<Rightarrow> Inl UnreachableDefault) of
               Inl e \<Rightarrow> Inl e
             | Inr st1 \<Rightarrow>
                 (let (t, st2) = rdtsc st1
                  in case heap st2 session of
                       None \<Rightarrow> Inl InvalidPointer
                     | Some s2 \<Rightarrow>
                         Inr (st2\<lparr>heap := (heap st2)(session \<mapsto> s2\<lparr>mgmt_req_tsc := t\<rparr>)\<rparr>)))
          else Inr st)"

text \<open>The range-based \<^verbatim>\<open>for\<close> over the queue, in queue order.\<close>

fun mgmt_retry_loop :: "64 word \<Rightarrow> session_ptr list \<Rightarrow> Rpc \<Rightarrow> error + Rpc" where
  "mgmt_retry_loop cur_tsc [] st = Inr st"
| "mgmt_retry_loop cur_tsc (session # rest) st =
     (case mgmt_retry_body cur_tsc session st of
        Inl e \<Rightarrow> Inl e
      | Inr st1 \<Rightarrow> mgmt_retry_loop cur_tsc rest st1)"

text \<open>\<^verbatim>\<open>mgmt_retry\<close>, rpc\_sm\_retry.cc lines 70--110.\<close>

definition mgmt_retry :: "Rpc \<Rightarrow> error + Rpc" where
  "mgmt_retry st =
     (if \<not> (length (mgmt_retry_queue st) > 0) then Inl AssertFailed
      else
        (let (cur_tsc, st1) = rdtsc st
         in mgmt_retry_loop cur_tsc (mgmt_retry_queue st1) st1))"


text \<open>
  The invariant of the retry queue, in the words of the spec: every entry is a live
  client session in state \<^verbatim>\<open>kConnectInProgress\<close> or \<^verbatim>\<open>kDisconnectInProgress\<close>, and no
  session is queued twice.
\<close>

definition queued_ok :: "Rpc \<Rightarrow> session_ptr \<Rightarrow> bool" where
  "queued_ok st p =
     (p \<noteq> nullptr \<and>
      (case heap st p of
         None \<Rightarrow> False
       | Some s \<Rightarrow> role s = kClient \<and>
                   (state s = kConnectInProgress \<or> state s = kDisconnectInProgress)))"

definition retry_queue_inv :: "Rpc \<Rightarrow> bool" where
  "retry_queue_inv st =
     (distinct (mgmt_retry_queue st) \<and> list_all (queued_ok st) (mgmt_retry_queue st))"

text \<open>The request \<^verbatim>\<open>mgmt_retry\<close> sends for a queued session, as
  \<^verbatim>\<open>send_connect_req_one\<close> and \<^verbatim>\<open>send_disconnect_req_one\<close> build it: a connect
  request in state \<^verbatim>\<open>kConnectInProgress\<close>, a disconnect request in state
  \<^verbatim>\<open>kDisconnectInProgress\<close> (the scan asserts that the state is one of the two).\<close>

definition sm_req_type :: "SessionState \<Rightarrow> SessionMgmtPktType" where
  "sm_req_type x = (if x = kConnectInProgress then kConnectReq else kDisconnectReq)"

definition sm_req_datagram :: "Rpc \<Rightarrow> Session \<Rightarrow> datagram" where
  "sm_req_datagram st s =
     \<lparr> dst_hostname = hostname (server_md s),
       dst_port = mgmt_udp_port (udp_config (nexus st)),
       dst_drop_prob = drop_prob (udp_config (nexus st)),
       payload = \<lparr> pkt_type = sm_req_type (state s), err_type = None,
                   client = client_md s, server = server_md s \<rparr> \<rparr>"

text \<open>The condition of line 85 for a queue entry, and the datagrams a scan at
  \<open>cur_tsc\<close> owes to a list of entries, in order.\<close>

definition retrans_due :: "Rpc \<Rightarrow> 64 word \<Rightarrow> session_ptr \<Rightarrow> bool" where
  "retrans_due st cur_tsc p =
     (case heap st p of
        None \<Rightarrow> False
      | Some s \<Rightarrow> elapsed_ms st cur_tsc s > real kSessionMgmtRetransMs)"



subsection \<open>Destroying a session\<close>

text \<open>
  Modelled from the spec: \<^verbatim>\<open>is_session_ptr_client\<close> is declared in rpc.h (``Check if this
  session pointer is a valid client session''); its body is not among the sources. A
  valid client session is a non-null entry of the session table that holds a session
  of role client.
\<close>

definition is_session_ptr_client :: "session_ptr \<Rightarrow> Rpc \<Rightarrow> bool" where
  "is_session_ptr_client session st =
     (session \<noteq> nullptr \<and> session \<in> set (session_vec st) \<and>
      (case heap st session of None \<Rightarrow> False | Some s \<Rightarrow> role s = kClient))"

text \<open>
  Modelled from the spec: \<^verbatim>\<open>bury_session\<close> is declared in rpc.h (``Destroy a session
  object and remove it from the session list''); its body is not among the sources. A
  bury replaces the table entry at the session's local number with the null tombstone
  and releases the session.
\<close>

definition bury_session :: "session_ptr \<Rightarrow> Rpc \<Rightarrow> error + Rpc" where
  "bury_session session st =
     (case heap st session of
        None \<Rightarrow> Inl InvalidPointer
      | Some s \<Rightarrow>
          (let n = unat (session_num (if role s = kClient then client_md s else server_md s))
           in if n \<ge> length (session_vec st) then Inl InvalidPointer
              else Inr (st\<lparr>session_vec := (session_vec st)[n := nullptr],
                          heap := (heap st)(session := None)\<rparr>)))"

text \<open>
  Modelled from the spec: \<^verbatim>\<open>destroy_session\<close> is declared and documented in rpc.h lines
  68--82; its body (rpc\_sm\_api.cc) is not among the sources. By the spec and the
  documentation of the declaration:
  \<^item> an invalid session argument is rejected with false;
  \<^item> a session that is mid-connect is rejected with false;
  \<^item> a connected session moves to \<^verbatim>\<open>kDisconnectInProgress\<close>, enters the retry queue,
    has its disconnect request sent, and the call returns true;
  \<^item> for a session in \<^verbatim>\<open>kError\<close> the \<^verbatim>\<open>Disconnected\<close> event is emitted at once, with
    no packet, the session is buried as the last act, and the call returns true;
  \<^item> every other transition is a programmer error.
\<close>

definition destroy_session :: "session_ptr \<Rightarrow> Rpc \<Rightarrow> error + (bool \<times> Rpc)" where
  "destroy_session session st =
     (if \<not> is_session_ptr_client session st then Inr (False, st)
      else case heap st session of
        None \<Rightarrow> Inl InvalidPointer
      | Some s \<Rightarrow>
          (case state s of
             kConnectInProgress \<Rightarrow> Inr (False, st)
           | kConnected \<Rightarrow>
               (let st1 = st\<lparr>heap := (heap st)(session \<mapsto> s\<lparr>state := kDisconnectInProgress\<rparr>)\<rparr>
                in case mgmt_retry_queue_add session st1 of
                     Inl e \<Rightarrow> Inl e
                   | Inr st2 \<Rightarrow>
                       (case send_disconnect_req_one session st2 of
                          Inl e \<Rightarrow> Inl e
                        | Inr st3 \<Rightarrow> Inr (True, st3)))
           | kDisconnectInProgress \<Rightarrow> Inl ProgrammerError
           | kDisconnected \<Rightarrow> Inl ProgrammerError
           | kError \<Rightarrow>
               (let st1 = st\<lparr>sm_events := sm_events st @ [(session, kDisconnectedEv, kNoError)]\<rparr>
                in case bury_session session st1 of
                     Inl e \<Rightarrow> Inl e
                   | Inr st2 \<Rightarrow> Inr (True, st2))))"

subsection \<open>Example states\<close>

text \<open>
  An endpoint at 1 GHz (a million cycles to the millisecond) with three client sessions
  in the retry queue: session 1 connecting, last sent at cycle 0; session 2
  disconnecting, last sent at cycle 98,000,000; session 3 disconnecting, last sent at
  cycle 90,000,000. The cycle counter reads 100,000,000 next and advances by 100 with
  each read: the three sessions are 100 ms, 2 ms and 10 ms past their last send.
\<close>

definition ex_md :: "string \<Rightarrow> 32 word \<Rightarrow> SessionMetadata" where
  "ex_md h n =
     \<lparr> transport_type = kInfiniBand, hostname = h @ [NUL, NUL], app_tid = 0,
       phy_port = 0, session_num = n, start_seq = 7, routing_info = [] \<rparr>"

definition ex_session :: "SessionState \<Rightarrow> 32 word \<Rightarrow> 64 word \<Rightarrow> Session" where
  "ex_session x n t =
     \<lparr> role = kClient, state = x, client_md = ex_md ''cli'' n,
       server_md = ex_md ''srv'' 4294967295, mgmt_req_tsc = t, is_cc = False \<rparr>"

definition ex_nexus :: Nexus where
  "ex_nexus = \<lparr> freq_ghz = 1, udp_config = \<lparr> mgmt_udp_port = 31850, drop_prob = 1 \<rparr> \<rparr>"

definition ex_tsc :: "nat \<Rightarrow> 64 word" where
  "ex_tsc n = 100000000 + 100 * of_nat n"

definition ex_rpc :: Rpc where
  "ex_rpc =
     \<lparr> nexus = ex_nexus,
       session_vec = [1, 2, 3],
       mgmt_retry_queue = [1, 2, 3],
       heap = [1 \<mapsto> ex_session kConnectInProgress 0 0,
               2 \<mapsto> ex_session kDisconnectInProgress 1 98000000,
               3 \<mapsto> ex_session kDisconnectInProgress 2 90000000],
       tsc = ex_tsc, tsc_reads = 0, udp_out = [], sm_events = [] \<rparr>"

text \<open>
  An endpoint with one connecting session created at cycle 0 whose requests are all
  dropped. The cycle counter reads 60,000,000 and 60,000,100 during a first scan and
  120,000,000 and 120,000,100 during a second: the scans run 60 ms and 120 ms after
  \<^verbatim>\<open>create_session\<close>.
\<close>

definition ex_tsc_drop :: "nat \<Rightarrow> 64 word" where
  "ex_tsc_drop n =
     (if n = 0 then 60000000 else if n = 1 then 60000100
      else if n = 2 then 120000000 else 120000100)"

definition ex_rpc_drop :: Rpc where
  "ex_rpc_drop =
     \<lparr> nexus = ex_nexus,
       session_vec = [1],
       mgmt_retry_queue = [1],
       heap = [1 \<mapsto> ex_session kConnectInProgress 0 0],
       tsc = ex_tsc_drop, tsc_reads = 0, udp_out = [], sm_events = [] \<rparr>"

text \<open>An endpoint with an empty retry queue and one connected client session, which
  \<^verbatim>\<open>mgmt_retry_queue_add\<close> accepts.\<close>

definition ex_rpc_connected :: Rpc where
  "ex_rpc_connected =
     \<lparr> nexus = ex_nexus,
       session_vec = [1],
       mgmt_retry_queue = [],
       heap = [1 \<mapsto> ex_session kConnected 0 0],
       tsc = ex_tsc, tsc_reads = 0, udp_out = [], sm_events = [] \<rparr>"

text \<open>Two metadata records at the same location that differ in every other field.\<close>

definition ex_md_a :: SessionMetadata where
  "ex_md_a =
     \<lparr> transport_type = kInfiniBand, hostname = ''srv'' @ [NUL, NUL, NUL], app_tid = 3,
       phy_port = 0, session_num = 5, start_seq = 7, routing_info = [1, 2] \<rparr>"

definition ex_md_b :: SessionMetadata where
  "ex_md_b =
     \<lparr> transport_type = kInvalidTransportType, hostname = ''srv'' @ [NUL, CHR ''x'', NUL],
       app_tid = 3, phy_port = 1, session_num = 5, start_seq = 9, routing_info = [] \<rparr>"

text \<open>The first example endpoint after one retry scan: sessions 1 and 3 were resent
  and carry the second and third reads of the cycle counter, session 2 is untouched.\<close>

definition ex_rpc_scanned :: Rpc where
  "ex_rpc_scanned =
     ex_rpc\<lparr>heap := [1 \<mapsto> ex_session kConnectInProgress 0 100000100,
                      2 \<mapsto> ex_session kDisconnectInProgress 1 98000000,
                      3 \<mapsto> ex_session kDisconnectInProgress 2 100000200],
            tsc_reads := 3,
            udp_out := [sm_req_datagram ex_rpc (ex_session kConnectInProgress 0 0),
                        sm_req_datagram ex_rpc (ex_session kDisconnectInProgress 2 90000000)]\<rparr>"

text \<open>The first example endpoint with session 1 taken out of the retry queue.\<close>

definition ex_rpc_unqueued :: Rpc where
  "ex_rpc_unqueued = ex_rpc\<lparr>mgmt_retry_queue := [2, 3]\<rparr>"

text \<open>The endpoint whose requests are dropped, after one scan and after two.\<close>

definition ex_rpc_drop_scanned :: Rpc where
  "ex_rpc_drop_scanned =
     ex_rpc_drop\<lparr>heap := [1 \<mapsto> ex_session kConnectInProgress 0 60000100],
                 tsc_reads := 2,
                 udp_out := [sm_req_datagram ex_rpc_drop (ex_session kConnectInProgress 0 0)]\<rparr>"

definition ex_rpc_drop_scanned2 :: Rpc where
  "ex_rpc_drop_scanned2 =
     ex_rpc_drop\<lparr>heap := [1 \<mapsto> ex_session kConnectInProgress 0 120000100],
                 tsc_reads := 4,
                 udp_out := [sm_req_datagram ex_rpc_drop (ex_session kConnectInProgress 0 0),
                             sm_req_datagram ex_rpc_drop (ex_session kConnectInProgress 0 0)]\<rparr>"

text \<open>The endpoint with the connected session, after \<^verbatim>\<open>mgmt_retry_queue_add\<close> of it.\<close>

definition ex_rpc_connected_added :: Rpc where
  "ex_rpc_connected_added =
     ex_rpc_connected\<lparr>heap := [1 \<mapsto> ex_session kConnected 0 100000000],
                      tsc_reads := 1, mgmt_retry_queue := [1]\<rparr>"

text \<open>A disconnect request as a server receives it.\<close>

definition ex_pkt :: SessionMgmtPkt where
  "ex_pkt = \<lparr> pkt_type = kDisconnectReq, err_type = None,
              client = ex_md ''cli'' 4, server = ex_md ''srv'' 9 \<rparr>"

section \<open>Properties\<close>

subsection \<open>Equality of session metadata\<close>

lemma strcmp_terminated:
  "NUL \<in> set s \<Longrightarrow> NUL \<in> set t \<Longrightarrow>
   \<exists>r. strcmp s t = Some r \<and> (r = 0) = (c_str s = c_str t)"
proof (induction s t rule: strcmp.induct)
  case (1 a s b t)
  show ?case
  proof (cases "a = b")
    case False
    then have "int (of_char a) \<noteq> int (of_char b)"
      by simp
    with False show ?thesis
      by (auto simp: c_str_def)
  next
    case True
    show ?thesis
    proof (cases "a = NUL")
      case nul: True
      with True show ?thesis by (simp add: c_str_def)
    next
      case False
      with True "1.prems" have "NUL \<in> set s" "NUL \<in> set t"
        by auto
      with "1.IH" True False obtain r where
        "strcmp s t = Some r" "(r = 0) = (c_str s = c_str t)"
        by blast
      with True False show ?thesis
        by (simp add: c_str_def)
    qed
  qed
qed simp_all

text \<open>
  Claim C6. On two metadata records whose hostname buffers are zero-terminated,
  \<^verbatim>\<open>a == b\<close> returns true exactly when the hostnames are equal as zero-terminated
  strings, the thread ids are equal and the session numbers are equal; the transport
  kind, the physical port, the start sequence and the routing info of either side have
  no effect on the result.
\<close>

theorem SessionMetadata_eq_location:
  assumes "NUL \<in> set (hostname a)" and "NUL \<in> set (hostname b)"
  shows "SessionMetadata_eq a b =
           Some (c_str (hostname a) = c_str (hostname b) \<and> app_tid a = app_tid b
                 \<and> session_num a = session_num b)
         \<and> SessionMetadata_eq
             (a\<lparr>transport_type := ta, phy_port := pa, start_seq := qa, routing_info := ra\<rparr>)
             (b\<lparr>transport_type := tb, phy_port := pb, start_seq := qb, routing_info := rb\<rparr>)
           = SessionMetadata_eq a b"
proof -
  from strcmp_terminated [OF assms] obtain r where
    "strcmp (hostname a) (hostname b) = Some r"
    "(r = 0) = (c_str (hostname a) = c_str (hostname b))"
    by blast
  then show ?thesis
    by (simp add: SessionMetadata_eq_def)
qed

theorem SessionMetadata_eq_location_witness:
  "NUL \<in> set (hostname ex_md_a) \<and> NUL \<in> set (hostname ex_md_b) \<and>
   SessionMetadata_eq ex_md_a ex_md_b = Some True \<and>
   SessionMetadata_eq (ex_md_a\<lparr>transport_type := kInvalidTransportType, phy_port := 9,
                               start_seq := 0, routing_info := []\<rparr>)
                      (ex_md_b\<lparr>transport_type := kInfiniBand, phy_port := 8,
                               start_seq := 1, routing_info := [5]\<rparr>) = Some True"
  using SessionMetadata_eq_location [where a = ex_md_a and b = ex_md_b
      and ta = kInvalidTransportType and pa = 9 and qa = 0 and ra = "[]"
      and tb = kInfiniBand and pb = 8 and qb = 1 and rb = "[5]"]
  by (simp add: ex_md_a_def ex_md_b_def c_str_def NUL_def)

subsection \<open>Responses built in place\<close>

text \<open>
  Claim C5. For a packet whose type is a request type, \<^verbatim>\<open>send_resp_mut\<close> with error
  kind \<open>e\<close> succeeds; the packet it leaves has the corresponding response type
  (\<^verbatim>\<open>kConnectResp\<close> for \<^verbatim>\<open>kConnectReq\<close>, \<^verbatim>\<open>kDisconnectResp\<close> for \<^verbatim>\<open>kDisconnectReq\<close>),
  error kind \<open>e\<close>, and the client and server metadata it had; exactly that packet is
  sent, to the hostname of its client metadata.
\<close>

theorem send_resp_mut_request:
  assumes "session_mgmt_is_pkt_type_req (pkt_type pkt)"
  shows "\<exists>pkt'. send_resp_mut e cfg pkt out =
           Inr (pkt', out @ [\<lparr> dst_hostname = hostname (client pkt),
                                dst_port = mgmt_udp_port cfg,
                                dst_drop_prob = drop_prob cfg, payload = pkt' \<rparr>])
         \<and> pkt' = pkt\<lparr>pkt_type := (if pkt_type pkt = kConnectReq then kConnectResp
                                      else kDisconnectResp),
                       err_type := Some e\<rparr>
         \<and> err_type pkt' = Some e
         \<and> client pkt' = client pkt \<and> server pkt' = server pkt"
  using assms
  by (cases "pkt_type pkt") (simp_all add: send_resp_mut_def send_to_def Let_def)

theorem send_resp_mut_request_witness:
  "session_mgmt_is_pkt_type_req (pkt_type ex_pkt) \<and>
   send_resp_mut kNoError (udp_config ex_nexus) ex_pkt [] =
     Inr (ex_pkt\<lparr>pkt_type := kDisconnectResp, err_type := Some kNoError\<rparr>,
          [\<lparr> dst_hostname = ''cli'' @ [NUL, NUL], dst_port = 31850, dst_drop_prob = 1,
             payload = ex_pkt\<lparr>pkt_type := kDisconnectResp, err_type := Some kNoError\<rparr> \<rparr>])"
  using send_resp_mut_request [of ex_pkt kNoError "udp_config ex_nexus" "[]"]
  by (auto simp add: ex_pkt_def ex_md_def ex_nexus_def)

subsection \<open>Destroying a session that is mid-connect\<close>

text \<open>
  Claim C8. For a session in state \<^verbatim>\<open>kConnectInProgress\<close>, \<^verbatim>\<open>destroy_session\<close> returns
  false and leaves the whole endpoint as it was: the session's state, its slot in the
  session table and the retry queue are unchanged.
\<close>

theorem destroy_session_mid_connect:
  assumes "heap st session = Some s" and "state s = kConnectInProgress"
  shows "destroy_session session st = Inr (False, st)"
  using assms by (simp add: destroy_session_def)

theorem destroy_session_mid_connect_witness:
  "heap ex_rpc 1 = Some (ex_session kConnectInProgress 0 0) \<and>
   state (ex_session kConnectInProgress 0 0) = kConnectInProgress \<and>
   is_session_ptr_client 1 ex_rpc \<and>
   destroy_session 1 ex_rpc = Inr (False, ex_rpc)"
  using destroy_session_mid_connect [of ex_rpc 1 "ex_session kConnectInProgress 0 0"]
  by (simp add: ex_rpc_def ex_session_def is_session_ptr_client_def nullptr_def)

subsection \<open>What one pass over the retry queue does\<close>

lemma mgmt_retry_body_effect:
  assumes "mgmt_retry_body cur p st = Inr st1"
  shows "\<exists>s. heap st p = Some s \<and> p \<noteq> nullptr
           \<and> (state s = kConnectInProgress \<or> state s = kDisconnectInProgress)
           \<and> 0 < cur - mgmt_req_tsc s
           \<and> (if retrans_due st cur p
              then role s = kClient
                 \<and> st1 = st\<lparr>udp_out := udp_out st @ [sm_req_datagram st s],
                            tsc_reads := tsc_reads st + 1,
                            heap := (heap st)(p \<mapsto> s\<lparr>mgmt_req_tsc := tsc st (tsc_reads st)\<rparr>)\<rparr>
              else st1 = st)"
  using assms
  by (auto simp: mgmt_retry_body_def retrans_due_def send_connect_req_one_def
        send_disconnect_req_one_def send_to_def sm_req_datagram_def sm_req_type_def
        rdtsc_def Let_def
      split: if_splits option.splits sum.splits SessionState.splits)

lemma mgmt_retry_body_ok:
  assumes "queued_ok st p" and "heap st p = Some s" and "mgmt_req_tsc s < cur"
  shows "\<exists>st1. mgmt_retry_body cur p st = Inr st1"
proof -
  from assms(3) have "0 < cur - mgmt_req_tsc s"
    by (metis word_neq_0_conv right_minus_eq less_irrefl)
  with assms(1,2) show ?thesis
    by (auto simp: mgmt_retry_body_def queued_ok_def send_connect_req_one_def
          send_disconnect_req_one_def rdtsc_def Let_def)
qed








lemma mgmt_retry_body_fields:
  assumes "mgmt_retry_body cur p st = Inr st1"
  obtains s where "heap st p = Some s" and "p \<noteq> nullptr"
    and "state s = kConnectInProgress \<or> state s = kDisconnectInProgress"
    and "0 < cur - mgmt_req_tsc s"
    and "retrans_due st cur p \<longrightarrow> role s = kClient"
    and "nexus st1 = nexus st" and "session_vec st1 = session_vec st"
    and "mgmt_retry_queue st1 = mgmt_retry_queue st" and "tsc st1 = tsc st"
    and "sm_events st1 = sm_events st"
    and "\<forall>q. q \<noteq> p \<longrightarrow> heap st1 q = heap st q"
    and "udp_out st1 =
           udp_out st @ (if retrans_due st cur p then [sm_req_datagram st s] else [])"
    and "tsc_reads st1 = tsc_reads st + (if retrans_due st cur p then 1 else 0)"
    and "heap st1 p =
           Some (if retrans_due st cur p
                 then s\<lparr>mgmt_req_tsc := tsc st (tsc_reads st)\<rparr> else s)"
proof -
  from mgmt_retry_body_effect [OF assms] obtain s where
    sx: "heap st p = Some s" "p \<noteq> nullptr"
        "state s = kConnectInProgress \<or> state s = kDisconnectInProgress"
        "0 < cur - mgmt_req_tsc s" and
    eff: "if retrans_due st cur p
          then role s = kClient
             \<and> st1 = st\<lparr>udp_out := udp_out st @ [sm_req_datagram st s],
                        tsc_reads := tsc_reads st + 1,
                        heap := (heap st)(p \<mapsto> s\<lparr>mgmt_req_tsc := tsc st (tsc_reads st)\<rparr>)\<rparr>
          else st1 = st"
    by blast
  show ?thesis
  proof (cases "retrans_due st cur p")
    case True
    with eff have r: "role s = kClient" and
      st1: "st1 = st\<lparr>udp_out := udp_out st @ [sm_req_datagram st s],
                        tsc_reads := tsc_reads st + 1,
                        heap := (heap st)(p \<mapsto> s\<lparr>mgmt_req_tsc := tsc st (tsc_reads st)\<rparr>)\<rparr>"
      by simp_all
    show ?thesis
    proof (rule that [of s])
      show "heap st1 p =
           Some (if retrans_due st cur p
                 then s\<lparr>mgmt_req_tsc := tsc st (tsc_reads st)\<rparr> else s)"
        unfolding st1 using True by simp
      show "udp_out st1 =
           udp_out st @ (if retrans_due st cur p then [sm_req_datagram st s] else [])"
        unfolding st1 using True by simp
      show "tsc_reads st1 = tsc_reads st + (if retrans_due st cur p then 1 else 0)"
        unfolding st1 using True by simp
      show "\<forall>q. q \<noteq> p \<longrightarrow> heap st1 q = heap st q"
        unfolding st1 by simp
      show "retrans_due st cur p \<longrightarrow> role s = kClient"
        using r by simp
    qed (simp_all add: st1, (rule sx)+)
  next
    case False
    with eff have st1: "st1 = st" by simp
    show ?thesis
    proof (rule that [of s])
      show "retrans_due st cur p \<longrightarrow> role s = kClient"
        using False by simp
    qed (simp_all add: st1 False, (rule sx)+)
  qed
qed


lemma mgmt_retry_unfold:
  "mgmt_retry st =
     (if mgmt_retry_queue st = [] then Inl AssertFailed
      else mgmt_retry_loop (tsc st (tsc_reads st)) (mgmt_retry_queue st)
             (st\<lparr>tsc_reads := tsc_reads st + 1\<rparr>))"
  by (simp add: mgmt_retry_def rdtsc_def)



lemma tsc_update_self: "\<exists>t. s = s\<lparr>mgmt_req_tsc := t\<rparr>"
  by (rule exI [of _ "mgmt_req_tsc s"]) simp

lemma mgmt_retry_body_frame:
  assumes "mgmt_retry_body cur p st = Inr st1"
  shows "mgmt_retry_queue st1 = mgmt_retry_queue st"
    and "session_vec st1 = session_vec st"
    and "sm_events st1 = sm_events st"
    and "heap st q = None \<Longrightarrow> heap st1 q = None"
    and "heap st q = Some s' \<Longrightarrow> \<exists>t. heap st1 q = Some (s'\<lparr>mgmt_req_tsc := t\<rparr>)"
    and "q \<noteq> p \<Longrightarrow> heap st1 q = heap st q"
proof -
  from assms obtain s where
    sx: "heap st p = Some s" and
    same: "session_vec st1 = session_vec st" "mgmt_retry_queue st1 = mgmt_retry_queue st"
      "sm_events st1 = sm_events st" and
    other: "\<forall>q. q \<noteq> p \<longrightarrow> heap st1 q = heap st q" and
    heap1: "heap st1 p =
      Some (if retrans_due st cur p then s\<lparr>mgmt_req_tsc := tsc st (tsc_reads st)\<rparr> else s)"
    by (rule mgmt_retry_body_fields)
  show "mgmt_retry_queue st1 = mgmt_retry_queue st" "session_vec st1 = session_vec st"
    "sm_events st1 = sm_events st"
    by (rule same)+
  show "heap st1 q = heap st q" if "q \<noteq> p"
    using that other by simp
  show "heap st1 q = None" if "heap st q = None"
    using that sx other by (cases "q = p") simp_all
  show "\<exists>t. heap st1 q = Some (s'\<lparr>mgmt_req_tsc := t\<rparr>)" if q: "heap st q = Some s'"
  proof (cases "q = p")
    case True
    with q sx have eq: "s' = s" by simp
    show ?thesis
    proof (cases "retrans_due st cur p")
      case True
      with heap1 \<open>q = p\<close> have
        "heap st1 q = Some (s'\<lparr>mgmt_req_tsc := tsc st (tsc_reads st)\<rparr>)"
        by (simp add: eq)
      then show ?thesis ..
    next
      case False
      with heap1 \<open>q = p\<close> have "heap st1 q = Some (s'\<lparr>mgmt_req_tsc := mgmt_req_tsc s'\<rparr>)"
        by (simp add: eq)
      then show ?thesis ..
    qed
  next
    case False
    with other q have "heap st1 q = Some (s'\<lparr>mgmt_req_tsc := mgmt_req_tsc s'\<rparr>)"
      by simp
    then show ?thesis ..
  qed
qed

lemma mgmt_retry_loop_frame:
  assumes "mgmt_retry_loop cur ps st = Inr st'"
  shows "mgmt_retry_queue st' = mgmt_retry_queue st \<and> session_vec st' = session_vec st
       \<and> sm_events st' = sm_events st
       \<and> (\<forall>q. heap st q = None \<longrightarrow> heap st' q = None)
       \<and> (\<forall>q s. heap st q = Some s \<longrightarrow> (\<exists>t. heap st' q = Some (s\<lparr>mgmt_req_tsc := t\<rparr>)))
       \<and> (\<forall>q. q \<notin> set ps \<longrightarrow> heap st' q = heap st q)"
  using assms
proof (induction ps arbitrary: st)
  case Nil
  then have "st' = st" by simp
  then show ?case
    by (simp add: tsc_update_self)
next
  case (Cons x rest)
  from Cons.prems obtain st1 where
    body: "mgmt_retry_body cur x st = Inr st1" and
    loop: "mgmt_retry_loop cur rest st1 = Inr st'"
    by (cases "mgmt_retry_body cur x st") simp_all
  note B = mgmt_retry_body_frame [OF body]
  from Cons.IH [OF loop] have
    L: "mgmt_retry_queue st' = mgmt_retry_queue st1" "session_vec st' = session_vec st1"
       "sm_events st' = sm_events st1" and
    Lnone: "\<forall>q. heap st1 q = None \<longrightarrow> heap st' q = None" and
    Lsome: "\<forall>q s. heap st1 q = Some s \<longrightarrow> (\<exists>t. heap st' q = Some (s\<lparr>mgmt_req_tsc := t\<rparr>))" and
    Lout: "\<forall>q. q \<notin> set rest \<longrightarrow> heap st' q = heap st1 q"
    by simp_all
  have some: "\<exists>t. heap st' q = Some (s\<lparr>mgmt_req_tsc := t\<rparr>)" if "heap st q = Some s" for q s
  proof -
    from B(5) [OF that] obtain t1 where "heap st1 q = Some (s\<lparr>mgmt_req_tsc := t1\<rparr>)" ..
    with Lsome obtain t where
      "heap st' q = Some (s\<lparr>mgmt_req_tsc := t1\<rparr>\<lparr>mgmt_req_tsc := t\<rparr>)"
      by blast
    then have "heap st' q = Some (s\<lparr>mgmt_req_tsc := t\<rparr>)"
      by simp
    then show ?thesis ..
  qed
  have none: "heap st' q = None" if "heap st q = None" for q
    using B(4) [OF that] Lnone by simp
  have outside: "heap st' q = heap st q" if "q \<notin> set (x # rest)" for q
  proof -
    from that have "q \<noteq> x" "q \<notin> set rest" by simp_all
    with B(6) Lout show ?thesis by simp
  qed
  have fields: "mgmt_retry_queue st' = mgmt_retry_queue st"
    "session_vec st' = session_vec st" "sm_events st' = sm_events st"
    using B(1-3) L by simp_all
  show ?case
    by (intro conjI allI impI) (rule fields none some outside, assumption?)+
qed

lemma queued_ok_cong:
  "heap st1 q = heap st q \<Longrightarrow> queued_ok st1 q = queued_ok st q"
  by (simp add: queued_ok_def)

lemma mgmt_retry_loop_total:
  assumes "distinct ps" and "\<forall>p\<in>set ps. queued_ok st p"
    and "\<forall>p\<in>set ps. \<forall>s. heap st p = Some s \<longrightarrow> mgmt_req_tsc s < cur"
  shows "\<exists>st'. mgmt_retry_loop cur ps st = Inr st'"
  using assms
proof (induction ps arbitrary: st)
  case Nil
  show ?case by simp
next
  case (Cons x rest)
  from Cons.prems(2) have okx: "queued_ok st x" by simp
  then obtain s where sx: "heap st x = Some s"
    by (cases "heap st x") (simp_all add: queued_ok_def)
  with Cons.prems(3) have lt: "mgmt_req_tsc s < cur" by simp
  from mgmt_retry_body_ok [OF okx sx lt] obtain st1 where
    body: "mgmt_retry_body cur x st = Inr st1" ..
  note B = mgmt_retry_body_frame [OF body]
  from Cons.prems(1) have dist: "distinct rest" and notin: "x \<notin> set rest"
    by simp_all
  have same: "heap st1 q = heap st q" if "q \<in> set rest" for q
  proof -
    from that notin have "q \<noteq> x" by auto
    then show ?thesis by (rule B(6))
  qed
  have ok1: "\<forall>p\<in>set rest. queued_ok st1 p"
  proof
    fix p assume p: "p \<in> set rest"
    with Cons.prems(2) have "queued_ok st p" by simp
    with queued_ok_cong [OF same [OF p]] show "queued_ok st1 p"
      by simp
  qed
  have tsc1: "\<forall>p\<in>set rest. \<forall>s. heap st1 p = Some s \<longrightarrow> mgmt_req_tsc s < cur"
  proof (intro ballI allI impI)
    fix p s assume p: "p \<in> set rest" and "heap st1 p = Some s"
    with same [OF p] have "heap st p = Some s" by simp
    with Cons.prems(3) p show "mgmt_req_tsc s < cur" by simp
  qed
  from Cons.IH [OF dist ok1 tsc1] obtain st' where "mgmt_retry_loop cur rest st1 = Inr st'" ..
  with body show ?case
    by simp
qed

subsection \<open>The example endpoints, evaluated\<close>

lemmas ex_defs = ex_rpc_def ex_rpc_scanned_def ex_rpc_unqueued_def ex_rpc_drop_def
  ex_rpc_drop_scanned_def ex_rpc_drop_scanned2_def ex_rpc_connected_def
  ex_rpc_connected_added_def ex_session_def ex_nexus_def ex_tsc_def ex_tsc_drop_def

lemmas scan_defs = mgmt_retry_unfold mgmt_retry_body_def elapsed_ms_def to_sec_def
  kSessionMgmtRetransMs_def kSessionMgmtTimeoutMs_def nullptr_def send_connect_req_one_def
  send_disconnect_req_one_def send_to_def sm_req_datagram_def sm_req_type_def
  rdtsc_def Let_def

lemma ex_rpc_scan: "mgmt_retry ex_rpc = Inr ex_rpc_scanned"
  by (simp add: mgmt_retry_unfold mgmt_retry_body_def ex_rpc_def ex_rpc_scanned_def
        ex_session_def ex_nexus_def ex_tsc_def elapsed_ms_def to_sec_def
        kSessionMgmtRetransMs_def nullptr_def send_connect_req_one_def
        send_disconnect_req_one_def send_to_def sm_req_datagram_def sm_req_type_def
        rdtsc_def Let_def fun_upd_twist)




lemma ex_rpc_connected_add:
  "mgmt_retry_queue_add 1 ex_rpc_connected = Inr ex_rpc_connected_added"
  by (simp add: mgmt_retry_queue_add_def mgmt_retry_queue_contains_def rdtsc_def nullptr_def
        ex_defs)

lemma ex_rpc_inv: "retry_queue_inv ex_rpc"
  by (simp add: retry_queue_inv_def queued_ok_def nullptr_def ex_defs)


subsection \<open>What a scan leaves alone\<close>

text \<open>
  Claim C9. A call of \<^verbatim>\<open>mgmt_retry\<close> that returns changes, in any session, at most the
  timestamp \<^verbatim>\<open>mgmt_req_tsc\<close>: every session keeps its state, its role and all its
  other fields, sessions outside the queue are not touched at all, the retry queue and
  the session table are the same lists as before (nothing added, removed or buried, no
  session freed), and no event is delivered. No hypothesis bounds the elapsed time.
\<close>

theorem mgmt_retry_frame:
  assumes "mgmt_retry st = Inr st'"
  shows "mgmt_retry_queue st' = mgmt_retry_queue st \<and> session_vec st' = session_vec st
       \<and> sm_events st' = sm_events st
       \<and> (\<forall>p. heap st p = None \<longrightarrow> heap st' p = None)
       \<and> (\<forall>p s. heap st p = Some s \<longrightarrow> (\<exists>t. heap st' p = Some (s\<lparr>mgmt_req_tsc := t\<rparr>)))
       \<and> (\<forall>p. p \<notin> set (mgmt_retry_queue st) \<longrightarrow> heap st' p = heap st p)"
proof -
  let ?st1 = "st\<lparr>tsc_reads := tsc_reads st + 1\<rparr>"
  from assms have "mgmt_retry_loop (tsc st (tsc_reads st)) (mgmt_retry_queue st) ?st1 = Inr st'"
    by (simp add: mgmt_retry_unfold split: if_splits)
  from mgmt_retry_loop_frame [OF this] show ?thesis
    by simp
qed

theorem mgmt_retry_frame_witness:
  "mgmt_retry ex_rpc = Inr ex_rpc_scanned
   \<and> mgmt_retry_queue ex_rpc_scanned = mgmt_retry_queue ex_rpc
   \<and> session_vec ex_rpc_scanned = session_vec ex_rpc
   \<and> sm_events ex_rpc_scanned = sm_events ex_rpc
   \<and> heap ex_rpc 4 = None \<and> heap ex_rpc_scanned 4 = None
   \<and> heap ex_rpc 1 = Some (ex_session kConnectInProgress 0 0)
   \<and> (\<exists>t. heap ex_rpc_scanned 1 =
             Some (ex_session kConnectInProgress 0 0\<lparr>mgmt_req_tsc := t\<rparr>))
   \<and> 4 \<notin> set (mgmt_retry_queue ex_rpc)
   \<and> heap ex_rpc_scanned 4 = heap ex_rpc 4"
proof -
  have n: "heap ex_rpc 4 = None"
    and h: "heap ex_rpc 1 = Some (ex_session kConnectInProgress 0 0)"
    and q: "4 \<notin> set (mgmt_retry_queue ex_rpc)"
    by (simp_all add: ex_defs)
  from mgmt_retry_frame [OF ex_rpc_scan] have
    F: "mgmt_retry_queue ex_rpc_scanned = mgmt_retry_queue ex_rpc"
       "session_vec ex_rpc_scanned = session_vec ex_rpc"
       "sm_events ex_rpc_scanned = sm_events ex_rpc" and
    N: "\<forall>p. heap ex_rpc p = None \<longrightarrow> heap ex_rpc_scanned p = None" and
    S: "\<forall>p s. heap ex_rpc p = Some s \<longrightarrow>
          (\<exists>t. heap ex_rpc_scanned p = Some (s\<lparr>mgmt_req_tsc := t\<rparr>))" and
    O: "\<forall>p. p \<notin> set (mgmt_retry_queue ex_rpc) \<longrightarrow> heap ex_rpc_scanned p = heap ex_rpc p"
    by simp_all
  from N n have n': "heap ex_rpc_scanned 4 = None" by blast
  from S h have s': "\<exists>t. heap ex_rpc_scanned 1 =
             Some (ex_session kConnectInProgress 0 0\<lparr>mgmt_req_tsc := t\<rparr>)"
    by blast
  from O q have o': "heap ex_rpc_scanned 4 = heap ex_rpc 4" by blast
  from ex_rpc_scan F n n' h s' q o' show ?thesis
    by (intro conjI)
qed

subsection \<open>The assertions of a scan\<close>

text \<open>
  Claim C10. When the retry queue is non-empty, satisfies its invariant (distinct live
  client sessions in state \<^verbatim>\<open>kConnectInProgress\<close> or \<^verbatim>\<open>kDisconnectInProgress\<close>) and
  the cycle count read at the start of the scan is strictly above the
  \<^verbatim>\<open>mgmt_req_tsc\<close> of every queued session, \<^verbatim>\<open>mgmt_retry\<close> returns: no assertion of
  it or of the functions it calls fails, and the \<^verbatim>\<open>default\<close> branch is not taken.
\<close>

theorem mgmt_retry_asserts_hold:
  assumes "retry_queue_inv st" and "mgmt_retry_queue st \<noteq> []"
    and "\<forall>p\<in>set (mgmt_retry_queue st). \<forall>s. heap st p = Some s \<longrightarrow>
           mgmt_req_tsc s < tsc st (tsc_reads st)"
  shows "\<exists>st'. mgmt_retry st = Inr st'"
proof -
  let ?st1 = "st\<lparr>tsc_reads := tsc_reads st + 1\<rparr>"
  from assms(1) have d: "distinct (mgmt_retry_queue st)"
    and ok: "\<forall>p\<in>set (mgmt_retry_queue st). queued_ok ?st1 p"
    by (simp_all add: retry_queue_inv_def list_all_iff queued_ok_def)
  from assms(3) have lt: "\<forall>p\<in>set (mgmt_retry_queue st). \<forall>s. heap ?st1 p = Some s \<longrightarrow>
           mgmt_req_tsc s < tsc st (tsc_reads st)"
    by simp
  from mgmt_retry_loop_total [OF d ok lt] assms(2) show ?thesis
    by (simp add: mgmt_retry_unfold)
qed

theorem mgmt_retry_asserts_hold_witness:
  "retry_queue_inv ex_rpc \<and> mgmt_retry_queue ex_rpc = [1, 2, 3]
   \<and> heap ex_rpc 1 = Some (ex_session kConnectInProgress 0 0)
   \<and> heap ex_rpc 2 = Some (ex_session kDisconnectInProgress 1 98000000)
   \<and> heap ex_rpc 3 = Some (ex_session kDisconnectInProgress 2 90000000)
   \<and> tsc ex_rpc (tsc_reads ex_rpc) = 100000000
   \<and> (\<exists>st'. mgmt_retry ex_rpc = Inr st')"
proof -
  have n: "mgmt_retry_queue ex_rpc \<noteq> []"
    by (simp add: ex_defs)
  have t: "\<forall>p\<in>set (mgmt_retry_queue ex_rpc). \<forall>s. heap ex_rpc p = Some s \<longrightarrow>
         mgmt_req_tsc s < tsc ex_rpc (tsc_reads ex_rpc)"
    by (simp add: ex_defs)
  have e: "mgmt_retry_queue ex_rpc = [1, 2, 3]"
    "heap ex_rpc 1 = Some (ex_session kConnectInProgress 0 0)"
    "heap ex_rpc 2 = Some (ex_session kDisconnectInProgress 1 98000000)"
    "heap ex_rpc 3 = Some (ex_session kDisconnectInProgress 2 90000000)"
    "tsc ex_rpc (tsc_reads ex_rpc) = 100000000"
    by (simp_all add: ex_defs)
  from mgmt_retry_asserts_hold [OF ex_rpc_inv n t] ex_rpc_inv e show ?thesis
    by (intro conjI)
qed

subsection \<open>The invariant of the retry queue\<close>

lemma mgmt_retry_Inr_loop:
  assumes "mgmt_retry st = Inr st'"
  shows "mgmt_retry_loop (tsc st (tsc_reads st)) (mgmt_retry_queue st)
           (st\<lparr>tsc_reads := tsc_reads st + 1\<rparr>) = Inr st'"
  using assms by (simp add: mgmt_retry_unfold split: if_splits)

lemma queued_ok_tsc_update:
  assumes "queued_ok st p" and "heap st p = Some s"
    and "heap st' p = Some (s\<lparr>mgmt_req_tsc := t\<rparr>)"
  shows "queued_ok st' p"
  using assms by (simp add: queued_ok_def)

lemma retry_queue_inv_scan:
  assumes "retry_queue_inv st" and "mgmt_retry st = Inr st'"
  shows "retry_queue_inv st'"
proof -
  let ?st1 = "st\<lparr>tsc_reads := tsc_reads st + 1\<rparr>"
  from mgmt_retry_loop_frame [OF mgmt_retry_Inr_loop [OF assms(2)]] have
    q: "mgmt_retry_queue st' = mgmt_retry_queue st" and
    some: "\<forall>q s. heap st q = Some s \<longrightarrow> (\<exists>t. heap st' q = Some (s\<lparr>mgmt_req_tsc := t\<rparr>))"
    by simp_all
  have "queued_ok st' p" if "p \<in> set (mgmt_retry_queue st)" for p
  proof -
    from assms(1) that have ok: "queued_ok st p"
      by (simp add: retry_queue_inv_def list_all_iff)
    then obtain s where s: "heap st p = Some s"
      by (cases "heap st p") (simp_all add: queued_ok_def)
    with some obtain t where "heap st' p = Some (s\<lparr>mgmt_req_tsc := t\<rparr>)"
      by blast
    with ok s show ?thesis
      by (rule queued_ok_tsc_update)
  qed
  with assms(1) q show ?thesis
    by (simp add: retry_queue_inv_def list_all_iff)
qed

lemma retry_queue_inv_add:
  assumes "retry_queue_inv st" and "mgmt_retry_queue_add p st = Inr st'"
    and "\<forall>s. heap st p = Some s \<longrightarrow>
           state s = kConnectInProgress \<or> state s = kDisconnectInProgress"
  shows "retry_queue_inv st'"
proof -
  from assms(2) obtain s where
    p: "p \<noteq> nullptr" "heap st p = Some s" "role s = kClient"
       "p \<notin> set (mgmt_retry_queue st)" and
    st': "st' = st\<lparr>tsc_reads := tsc_reads st + 1,
                   heap := (heap st)(p \<mapsto> s\<lparr>mgmt_req_tsc := tsc st (tsc_reads st)\<rparr>),
                   mgmt_retry_queue := mgmt_retry_queue st @ [p]\<rparr>"
    by (auto simp: mgmt_retry_queue_add_def mgmt_retry_queue_contains_def rdtsc_def
          split: if_splits option.splits)
  from assms(3) p(2) have "state s = kConnectInProgress \<or> state s = kDisconnectInProgress"
    by simp
  with p have okp: "queued_ok st' p"
    by (simp add: queued_ok_def st')
  have "queued_ok st' q" if "q \<in> set (mgmt_retry_queue st)" for q
  proof -
    from that p(4) have "q \<noteq> p" by auto
    then have "heap st' q = heap st q"
      by (simp add: st')
    from queued_ok_cong [OF this] assms(1) that show ?thesis
      by (simp add: retry_queue_inv_def list_all_iff)
  qed
  with okp assms(1) p(4) show ?thesis
    by (simp add: retry_queue_inv_def list_all_iff st')
qed

lemma retry_queue_inv_remove:
  assumes "retry_queue_inv st" and "mgmt_retry_queue_remove p st = Inr st'"
  shows "retry_queue_inv st'"
proof -
  from assms(2) have st': "st' = st\<lparr>mgmt_retry_queue := removeAll p (mgmt_retry_queue st)\<rparr>"
    by (auto simp: mgmt_retry_queue_remove_def Let_def split: if_splits option.splits)
  have "queued_ok st' q = queued_ok st q" for q
    by (rule queued_ok_cong) (simp add: st')
  with assms(1) show ?thesis
    by (simp add: retry_queue_inv_def list_all_iff st' distinct_removeAll)
qed

text \<open>
  \<^verbatim>\<open>mgmt_retry_queue_add\<close> asserts the role of the session and that it is not queued
  yet; it does not look at the state. On an endpoint whose queue is empty it accepts a
  connected client session, and the queue then holds a session that is in neither of
  the two in-progress states: claim C4 as stated fails for the add operation.
\<close>

theorem retry_queue_add_counterexample:
  "retry_queue_inv ex_rpc_connected
   \<and> mgmt_retry_queue_add 1 ex_rpc_connected = Inr ex_rpc_connected_added
   \<and> \<not> retry_queue_inv ex_rpc_connected_added"
  using ex_rpc_connected_add
  by (simp add: retry_queue_inv_def queued_ok_def ex_defs)

text \<open>
  Claim C4, amended. The invariant of the retry queue (every entry a live client session
  in state \<^verbatim>\<open>kConnectInProgress\<close> or \<^verbatim>\<open>kDisconnectInProgress\<close>, no session queued
  twice) is preserved by \<^verbatim>\<open>mgmt_retry_queue_remove\<close> and by the scan \<^verbatim>\<open>mgmt_retry\<close>,
  and by \<^verbatim>\<open>mgmt_retry_queue_add\<close> when the session added is in one of the two
  in-progress states.
\<close>

theorem retry_queue_inv_preserved:
  assumes "retry_queue_inv st"
  shows "(mgmt_retry_queue_add p st = Inr st1 \<longrightarrow>
            (\<forall>s. heap st p = Some s \<longrightarrow>
               state s = kConnectInProgress \<or> state s = kDisconnectInProgress) \<longrightarrow>
            retry_queue_inv st1)
       \<and> (mgmt_retry_queue_remove q st = Inr st2 \<longrightarrow> retry_queue_inv st2)
       \<and> (mgmt_retry st = Inr st3 \<longrightarrow> retry_queue_inv st3)"
  using assms retry_queue_inv_add retry_queue_inv_remove retry_queue_inv_scan
  by blast

theorem retry_queue_inv_preserved_witness:
  "retry_queue_inv ex_rpc_unqueued
   \<and> (\<exists>st1. mgmt_retry_queue_add 1 ex_rpc_unqueued = Inr st1 \<and> retry_queue_inv st1)
   \<and> (\<exists>st2. mgmt_retry_queue_remove 2 ex_rpc_unqueued = Inr st2 \<and> retry_queue_inv st2)
   \<and> (\<exists>st3. mgmt_retry ex_rpc_unqueued = Inr st3 \<and> retry_queue_inv st3)"
proof -
  have inv: "retry_queue_inv ex_rpc_unqueued"
    by (simp add: retry_queue_inv_def queued_ok_def nullptr_def ex_defs)
  obtain st1 where a: "mgmt_retry_queue_add 1 ex_rpc_unqueued = Inr st1"
    by (simp add: mgmt_retry_queue_add_def mgmt_retry_queue_contains_def rdtsc_def
          nullptr_def ex_defs)
  have s: "\<forall>s. heap ex_rpc_unqueued 1 = Some s \<longrightarrow>
             state s = kConnectInProgress \<or> state s = kDisconnectInProgress"
    by (simp add: ex_defs)
  obtain st2 where r: "mgmt_retry_queue_remove 2 ex_rpc_unqueued = Inr st2"
    by (simp add: mgmt_retry_queue_remove_def mgmt_retry_queue_contains_def nullptr_def
          Let_def ex_defs)
  obtain st3 where m: "mgmt_retry ex_rpc_unqueued = Inr st3"
    by (simp add: scan_defs ex_defs)
  from retry_queue_inv_preserved [OF inv, of 1 st1 2 st2 st3] a s r m inv
  show ?thesis
    by simp
qed


subsection \<open>Which sessions a scan retransmits\<close>





subsection \<open>Sessions past the timeout\<close>





subsection \<open>Scans while every packet is dropped\<close>





end
